theory Spec2Isabelle
  imports Complex_Main
begin

text \<open>
  The behaviour layer of the landing page exists twice: as global functions in
  \<^verbatim>\<open>script.js\<close> and as the methods of the class \<^verbatim>\<open>PatreonLandingApp\<close> (the controller).
  Both are embedded. A function keeps its name; where the two files use the same name,
  the controller's method carries the prefix \<open>app_\<close>. Each subsystem has its own state
  record, holding what its code reads and writes. The definitions come first, the
  properties after them.
\<close>

section \<open>JavaScript numbers\<close>

text \<open>
  The scroll code computes with JavaScript numbers. A number is a finite value or one of
  the three special values of IEEE 754. Finite values are kept exact (rationals): rounding
  plays no part in the properties below, the special values do. The operations follow the
  IEEE tables; a zero divisor is the positive zero, which is what the subtraction of two
  equal integers yields.
\<close>

datatype jsnum = Finite rat | PosInf | NegInf | NaN

fun js_div :: "jsnum \<Rightarrow> jsnum \<Rightarrow> jsnum" where
  "js_div NaN y = NaN"
| "js_div x NaN = NaN"
| "js_div (Finite a) (Finite b) =
     (if b = 0 then (if a = 0 then NaN else if 0 < a then PosInf else NegInf)
      else Finite (a / b))"
| "js_div (Finite a) PosInf = Finite 0"
| "js_div (Finite a) NegInf = Finite 0"
| "js_div PosInf (Finite b) = (if b < 0 then NegInf else PosInf)"
| "js_div NegInf (Finite b) = (if b < 0 then PosInf else NegInf)"
| "js_div PosInf PosInf = NaN"
| "js_div PosInf NegInf = NaN"
| "js_div NegInf PosInf = NaN"
| "js_div NegInf NegInf = NaN"

fun js_mul :: "jsnum \<Rightarrow> jsnum \<Rightarrow> jsnum" where
  "js_mul NaN y = NaN"
| "js_mul x NaN = NaN"
| "js_mul (Finite a) (Finite b) = Finite (a * b)"
| "js_mul (Finite a) PosInf = (if a = 0 then NaN else if 0 < a then PosInf else NegInf)"
| "js_mul (Finite a) NegInf = (if a = 0 then NaN else if 0 < a then NegInf else PosInf)"
| "js_mul PosInf (Finite b) = (if b = 0 then NaN else if 0 < b then PosInf else NegInf)"
| "js_mul NegInf (Finite b) = (if b = 0 then NaN else if 0 < b then NegInf else PosInf)"
| "js_mul PosInf PosInf = PosInf"
| "js_mul PosInf NegInf = NegInf"
| "js_mul NegInf PosInf = NegInf"
| "js_mul NegInf NegInf = PosInf"

text \<open>\<^verbatim>\<open>Math.min\<close> of two numbers: \<^verbatim>\<open>NaN\<close> if either is.\<close>

fun Math_min :: "jsnum \<Rightarrow> jsnum \<Rightarrow> jsnum" where
  "Math_min NaN y = NaN"
| "Math_min x NaN = NaN"
| "Math_min NegInf y = NegInf"
| "Math_min x NegInf = NegInf"
| "Math_min PosInf y = y"
| "Math_min x PosInf = x"
| "Math_min (Finite a) (Finite b) = Finite (min a b)"

section \<open>Scroll reactor\<close>

text \<open>
  What the scroll handlers read and write: the window's vertical offset and inner height,
  the document's scroll height, the inline \<^verbatim>\<open>display\<close> of the \<^verbatim>\<open>.scroll-to-top\<close>
  control and the inline \<^verbatim>\<open>width\<close> of the \<^verbatim>\<open>.reading-progress\<close> bar (each \<open>None\<close>
  when \<^verbatim>\<open>querySelector\<close> finds no such element), and the calls of
  \<^verbatim>\<open>window.scrollTo\<close>. The width the code writes is the text of a number followed by
  a percent sign; the number is kept as such.
\<close>

datatype css_width = Percent jsnum

record scroll_options =
  scroll_top :: rat
  behavior :: string

record scroll_page =
  pageYOffset :: rat
  scrollHeight :: int
  innerHeight :: int
  scroll_to_top :: "string option"
  reading_progress :: "css_width option option"
  scrollTo_calls :: "scroll_options list"

text \<open>
  \<open>reading_progress\<close> is \<open>None\<close> without the element, \<open>Some None\<close> for an element
  whose inline width was never written, \<open>Some (Some w)\<close> after a write of \<open>w\<close>.
\<close>

text \<open>The scroll listener of \<^verbatim>\<open>script.js\<close> (lines 117-126).\<close>

definition scroll_listener :: "scroll_page \<Rightarrow> scroll_page" where
  "scroll_listener p =
     (case scroll_to_top p of
        None \<Rightarrow> p
      | Some d \<Rightarrow>
          if 300 < pageYOffset p then p\<lparr>scroll_to_top := Some ''block''\<rparr>
          else p\<lparr>scroll_to_top := Some ''none''\<rparr>)"

text \<open>\<^verbatim>\<open>scrollToTop\<close>, the same in both files.\<close>

definition scrollToTop :: "scroll_page \<Rightarrow> scroll_page" where
  "scrollToTop p =
     p\<lparr>scrollTo_calls := scrollTo_calls p @ [\<lparr>scroll_top = 0, behavior = ''smooth''\<rparr>]\<rparr>"

text \<open>The controller's \<^verbatim>\<open>updateScrollButton\<close>, \<^verbatim>\<open>updateProgressBar\<close> and \<^verbatim>\<open>onScroll\<close>.\<close>

definition updateScrollButton :: "scroll_page \<Rightarrow> scroll_page" where
  "updateScrollButton p =
     (case scroll_to_top p of
        None \<Rightarrow> p
      | Some d \<Rightarrow> p\<lparr>scroll_to_top := Some (if 300 < pageYOffset p then ''block'' else ''none'')\<rparr>)"

definition updateProgressBar :: "scroll_page \<Rightarrow> scroll_page" where
  "updateProgressBar p =
     (case reading_progress p of
        None \<Rightarrow> p
      | Some w \<Rightarrow>
          (let scrolled =
                 js_mul (js_div (Finite (pageYOffset p))
                                (Finite (of_int (scrollHeight p - innerHeight p))))
                        (Finite 100)
           in p\<lparr>reading_progress := Some (Some (Percent (Math_min scrolled (Finite 100))))\<rparr>))"

definition onScroll :: "scroll_page \<Rightarrow> scroll_page" where
  "onScroll p = updateProgressBar (updateScrollButton p)"

text \<open>
  The part of the controller's delegated click dispatch (\<^verbatim>\<open>handleClicks\<close>) that concerns
  the scroll reactor: the \<^verbatim>\<open>data-action\<close> value of the closest ancestor carrying one
  (\<open>None\<close> when there is none) selects the operation; every other value leaves the
  scroll state alone.
\<close>

definition handleClicks_scroll :: "string option \<Rightarrow> scroll_page \<Rightarrow> scroll_page" where
  "handleClicks_scroll target p =
     (case target of
        None \<Rightarrow> p
      | Some action \<Rightarrow> if action = ''scroll-to-top'' then scrollToTop p else p)"

text \<open>
  The clamp that the specification's formula for the bar uses, on exact values. It is
  not part of the code; the statements about the bar compare the code with it.
\<close>

definition spec_clamp :: "rat \<Rightarrow> rat \<Rightarrow> rat \<Rightarrow> rat" where
  "spec_clamp x lo hi = max lo (min x hi)"

section \<open>Video modal\<close>

text \<open>
  A thrown value. An operation that can throw returns the thrown value, if any, together
  with the state at that moment: the writes made before the throw stay.
\<close>

datatype js_error = TypeError | NotFoundError | Error string

type_synonym 'a result = "js_error option \<times> 'a"

text \<open>
  The media element: \<^verbatim>\<open>paused\<close> and \<^verbatim>\<open>currentTime\<close> are its properties; \<open>can_play\<close>
  says whether the user agent lets playback start (autoplay policy, a usable source). It
  belongs to the environment and no operation writes it.
\<close>

record video_el =
  paused :: bool
  currentTime :: rat
  can_play :: bool

text \<open>
  \<^verbatim>\<open>video.play()\<close> returns a promise; the flag returned here says whether it is
  fulfilled. \<^verbatim>\<open>video.pause()\<close> cannot fail.
\<close>

definition play :: "video_el \<Rightarrow> bool \<times> video_el" where
  "play v = (if can_play v then (True, v\<lparr>paused := False\<rparr>) else (False, v))"

definition pause :: "video_el \<Rightarrow> video_el" where
  "pause v = v\<lparr>paused := True\<rparr>"

text \<open>
  The part of the document the modal code touches: the inline \<^verbatim>\<open>display\<close> of
  \<^verbatim>\<open>#videoModal\<close> and the element \<^verbatim>\<open>#heroVideo\<close> (\<open>None\<close> when
  \<^verbatim>\<open>getElementById\<close> returns \<^verbatim>\<open>null\<close>), the inline \<^verbatim>\<open>overflow\<close> of the body, and
  the console.
\<close>

record modal_page =
  videoModal :: "string option"
  heroVideo :: "video_el option"
  body_overflow :: string
  modal_console :: "string list"

text \<open>\<^verbatim>\<open>script.js\<close>, lines 2-15. Reading a property of \<^verbatim>\<open>null\<close> throws a \<^verbatim>\<open>TypeError\<close>.\<close>

definition playVideo :: "modal_page \<Rightarrow> modal_page result" where
  "playVideo p =
     (case videoModal p of
        None \<Rightarrow> (Some TypeError, p)
      | Some d \<Rightarrow>
          (let p1 = p\<lparr>videoModal := Some ''block''\<rparr>
           in case heroVideo p1 of
                None \<Rightarrow> (Some TypeError, p1)
              | Some v \<Rightarrow> (None, p1\<lparr>heroVideo := Some (snd (play v))\<rparr>)))"

definition closeVideo :: "modal_page \<Rightarrow> modal_page result" where
  "closeVideo p =
     (case videoModal p of
        None \<Rightarrow> (Some TypeError, p)
      | Some d \<Rightarrow>
          (let p1 = p\<lparr>videoModal := Some ''none''\<rparr>
           in case heroVideo p1 of
                None \<Rightarrow> (Some TypeError, p1)
              | Some v \<Rightarrow> (None, p1\<lparr>heroVideo := Some ((pause v)\<lparr>currentTime := 0\<rparr>)\<rparr>)))"

text \<open>
  The controller's methods (lines 101-122 of the controller file). A rejected play promise
  is caught and logged with \<^verbatim>\<open>console.warn\<close>.
\<close>

definition app_playVideo :: "modal_page \<Rightarrow> modal_page" where
  "app_playVideo p =
     (case (videoModal p, heroVideo p) of
        (Some d, Some v) \<Rightarrow>
          (let p1 = p\<lparr>videoModal := Some ''block''\<rparr>;
               (ok, v') = play v;
               p2 = p1\<lparr>heroVideo := Some v'\<rparr>;
               p3 = (if ok then p2
                     else p2\<lparr>modal_console := modal_console p2 @ [''Video play failed:'']\<rparr>)
           in p3\<lparr>body_overflow := ''hidden''\<rparr>)
      | _ \<Rightarrow> p)"

definition app_closeVideo :: "modal_page \<Rightarrow> modal_page" where
  "app_closeVideo p =
     (case (videoModal p, heroVideo p) of
        (Some d, Some v) \<Rightarrow>
          p\<lparr>videoModal := Some ''none'',
            heroVideo := Some ((pause v)\<lparr>currentTime := 0\<rparr>),
            body_overflow := ''''\<rparr>
      | _ \<Rightarrow> p)"



section \<open>Reveal animation and lazy images\<close>

text \<open>
  Elements are named by numbers. An intersection entry carries its target and whether the
  target intersects. The page holds the inline style of the animated elements, the
  images, and for each of the two watchers its set of observed targets. \<open>applied\<close> lists
  the elements on which an effect (reveal or load) has run, oldest first: it is what a
  test spying on the effect would record.
\<close>

record entry =
  target :: nat
  isIntersecting :: bool

record anim_style =
  opacity :: string
  translate :: string
  transition :: string

record lazy_img =
  src :: string
  data_src :: string
  classList :: "string list"

record watch_page =
  anim :: "nat \<Rightarrow> anim_style"
  observed :: "nat set"
  images :: "nat \<Rightarrow> lazy_img"
  img_observed :: "nat set"
  applied :: "nat list"

definition observe :: "nat \<Rightarrow> watch_page \<Rightarrow> watch_page" where
  "observe el p = p\<lparr>observed := insert el (observed p)\<rparr>"

definition unobserve :: "nat \<Rightarrow> watch_page \<Rightarrow> watch_page" where
  "unobserve el p = p\<lparr>observed := observed p - {el}\<rparr>"

definition img_observe :: "nat \<Rightarrow> watch_page \<Rightarrow> watch_page" where
  "img_observe el p = p\<lparr>img_observed := insert el (img_observed p)\<rparr>"

definition img_unobserve :: "nat \<Rightarrow> watch_page \<Rightarrow> watch_page" where
  "img_unobserve el p = p\<lparr>img_observed := img_observed p - {el}\<rparr>"

text \<open>\<^verbatim>\<open>classList.remove\<close> and \<^verbatim>\<open>classList.add\<close> on a token list without repetition.\<close>

definition classList_remove :: "string \<Rightarrow> string list \<Rightarrow> string list" where
  "classList_remove c cs = filter (\<lambda>x. x \<noteq> c) cs"

definition classList_add :: "string \<Rightarrow> string list \<Rightarrow> string list" where
  "classList_add c cs = (if c \<in> set cs then cs else cs @ [c])"

text \<open>
  \<^verbatim>\<open>script.js\<close>: the callback of \<^verbatim>\<open>observer\<close> (lines 41-48), the set-up of the animated
  elements (lines 51-60, given the elements the selector matches), and the callback of
  \<^verbatim>\<open>imageObserver\<close> with its registration (lines 85-100).
\<close>

definition observer_entry :: "entry \<Rightarrow> watch_page \<Rightarrow> watch_page" where
  "observer_entry e p =
     (if isIntersecting e then
        p\<lparr>anim := (anim p)(target e := (anim p (target e))\<lparr>opacity := ''1'',
                                                              translate := ''translateY(0)''\<rparr>),
          applied := applied p @ [target e]\<rparr>
      else p)"

definition observer_callback :: "entry list \<Rightarrow> watch_page \<Rightarrow> watch_page" where
  "observer_callback entries p = fold observer_entry entries p"

definition animate_setup :: "nat list \<Rightarrow> watch_page \<Rightarrow> watch_page" where
  "animate_setup animateElements p =
     fold (\<lambda>el q. observe el
             (q\<lparr>anim := (anim q)(el := \<lparr>opacity = ''0'', translate = ''translateY(30px)'',
                                        transition = ''opacity 0.6s ease, transform 0.6s ease''\<rparr>)\<rparr>))
          animateElements p"

definition imageObserver_entry :: "entry \<Rightarrow> watch_page \<Rightarrow> watch_page" where
  "imageObserver_entry e p =
     (if isIntersecting e then
        (let img = target e;
             i = images p img;
             i1 = i\<lparr>src := data_src i\<rparr>;
             i2 = i1\<lparr>classList := classList_remove ''lazy'' (classList i1)\<rparr>
         in img_unobserve img (p\<lparr>images := (images p)(img := i2), applied := applied p @ [img]\<rparr>))
      else p)"

definition imageObserver_callback :: "entry list \<Rightarrow> watch_page \<Rightarrow> watch_page" where
  "imageObserver_callback entries p = fold imageObserver_entry entries p"

definition lazy_setup :: "nat list \<Rightarrow> watch_page \<Rightarrow> watch_page" where
  "lazy_setup imgs p = fold img_observe imgs p"

text \<open>
  The controller: \<^verbatim>\<open>animateElement\<close>, the callback built by
  \<^verbatim>\<open>setupIntersectionObserver\<close> (lines 147-154), \<^verbatim>\<open>initializeAnimations\<close>,
  \<^verbatim>\<open>loadImage\<close> and the callback and registration of \<^verbatim>\<open>setupLazyLoading\<close>.
\<close>

definition animateElement :: "nat \<Rightarrow> watch_page \<Rightarrow> watch_page" where
  "animateElement element p =
     p\<lparr>anim := (anim p)(element := (anim p element)\<lparr>opacity := ''1'',
                                                      translate := ''translateY(0)''\<rparr>),
       applied := applied p @ [element]\<rparr>"

definition app_observer_entry :: "entry \<Rightarrow> watch_page \<Rightarrow> watch_page" where
  "app_observer_entry e p =
     (if isIntersecting e then unobserve (target e) (animateElement (target e) p) else p)"

definition app_observer_callback :: "entry list \<Rightarrow> watch_page \<Rightarrow> watch_page" where
  "app_observer_callback entries p = fold app_observer_entry entries p"

definition initializeAnimations :: "nat list \<Rightarrow> watch_page \<Rightarrow> watch_page" where
  "initializeAnimations animateElements p =
     fold (\<lambda>el q. observe el
             (q\<lparr>anim := (anim q)(el := \<lparr>opacity = ''0'', translate = ''translateY(30px)'',
                                        transition = ''opacity 0.6s ease, transform 0.6s ease''\<rparr>)\<rparr>))
          animateElements p"

definition loadImage :: "nat \<Rightarrow> watch_page \<Rightarrow> watch_page" where
  "loadImage img p =
     (let i = images p img;
          i1 = i\<lparr>src := data_src i\<rparr>;
          i2 = i1\<lparr>classList := classList_remove ''lazy'' (classList i1)\<rparr>;
          i3 = i2\<lparr>classList := classList_add ''loaded'' (classList i2)\<rparr>
      in p\<lparr>images := (images p)(img := i3), applied := applied p @ [img]\<rparr>)"

definition app_imageObserver_entry :: "entry \<Rightarrow> watch_page \<Rightarrow> watch_page" where
  "app_imageObserver_entry e p =
     (if isIntersecting e then img_unobserve (target e) (loadImage (target e) p) else p)"

definition app_imageObserver_callback :: "entry list \<Rightarrow> watch_page \<Rightarrow> watch_page" where
  "app_imageObserver_callback entries p = fold app_imageObserver_entry entries p"

definition setupLazyLoading :: "nat list \<Rightarrow> watch_page \<Rightarrow> watch_page" where
  "setupLazyLoading imgs p = fold img_observe imgs p"

text \<open>
  The watcher is a capability of the platform: it calls its callback with entries for
  targets it observes at that moment, and with no others. \<open>deliver\<close> is that call for the
  reveal watcher, \<open>img_deliver\<close> for the image watcher, each for a given callback.
\<close>

definition deliver ::
  "(entry list \<Rightarrow> watch_page \<Rightarrow> watch_page) \<Rightarrow> entry list \<Rightarrow> watch_page \<Rightarrow> watch_page" where
  "deliver callback entries p = callback (filter (\<lambda>e. target e \<in> observed p) entries) p"

definition img_deliver ::
  "(entry list \<Rightarrow> watch_page \<Rightarrow> watch_page) \<Rightarrow> entry list \<Rightarrow> watch_page \<Rightarrow> watch_page" where
  "img_deliver callback entries p = callback (filter (\<lambda>e. target e \<in> img_observed p) entries) p"

section \<open>Sharing\<close>

text \<open>
  Strings are byte strings in UTF-8. The promotional text begins, in \<^verbatim>\<open>script.js\<close>, with
  the four bytes of the code point U+1F3A8; the controller file holds in its place the
  eight bytes of the code points U+00F0, U+0178, U+017D, U+00A8.
\<close>

definition giftUrl :: string where
  "giftUrl = ''https://www.patreon.com/MesmerizingIndianAILookbook/gift''"

definition text_tail :: string where
  "text_tail = '' Why not gift the world of beautiful AI art? Give someone a special experience!''"

definition share_text :: string where
  "share_text = [CHR 0xF0, CHR 0x9F, CHR 0x8E, CHR 0xA8] @ text_tail"

definition app_share_text :: string where
  "app_share_text =
     [CHR 0xC3, CHR 0xB0, CHR 0xC5, CHR 0xB8, CHR 0xC5, CHR 0xBD, CHR 0xC2, CHR 0xA8] @ text_tail"

text \<open>
  \<^verbatim>\<open>encodeURIComponent\<close> on a well-formed string: every byte of the UTF-8 form is
  escaped as a percent sign and two upper-case hexadecimal digits, except the letters,
  the digits and the marks \<^verbatim>\<open>- _ . ! ~ * ' ( )\<close>.
\<close>

definition unreserved :: "char \<Rightarrow> bool" where
  "unreserved c =
     (let n = (of_char c :: nat)
      in (65 \<le> n \<and> n \<le> 90) \<or> (97 \<le> n \<and> n \<le> 122) \<or> (48 \<le> n \<and> n \<le> 57)
         \<or> n \<in> {45, 95, 46, 33, 126, 42, 39, 40, 41})"

definition hex_digit :: "nat \<Rightarrow> char" where
  "hex_digit n = ''0123456789ABCDEF'' ! n"

definition encode_byte :: "char \<Rightarrow> string" where
  "encode_byte c =
     (if unreserved c then [c]
      else [CHR ''%'', hex_digit ((of_char c :: nat) div 16), hex_digit ((of_char c :: nat) mod 16)])"

definition encodeURIComponent :: "string \<Rightarrow> string" where
  "encodeURIComponent s = concat (map encode_byte s)"

text \<open>
  The values a property read can give here: \<^verbatim>\<open>undefined\<close>, a string, a function (by
  name), an object. Every function and object is truthy; a string is truthy unless
  empty.
\<close>

datatype jsval = JUndefined | JString string | JFunction string | JObject string

fun truthy :: "jsval \<Rightarrow> bool" where
  "truthy JUndefined = False"
| "truthy (JString s) = (s \<noteq> [])"
| "truthy (JFunction f) = True"
| "truthy (JObject b) = True"

text \<open>
  An object literal inherits from \<^verbatim>\<open>Object.prototype\<close>, and a property read that finds
  no own property goes on to the prototype. These are the properties found there.
\<close>

definition Object_prototype :: "(string \<times> jsval) list" where
  "Object_prototype =
     [(''constructor'', JFunction ''Object''),
      (''__defineGetter__'', JFunction ''__defineGetter__''),
      (''__defineSetter__'', JFunction ''__defineSetter__''),
      (''hasOwnProperty'', JFunction ''hasOwnProperty''),
      (''__lookupGetter__'', JFunction ''__lookupGetter__''),
      (''__lookupSetter__'', JFunction ''__lookupSetter__''),
      (''isPrototypeOf'', JFunction ''isPrototypeOf''),
      (''propertyIsEnumerable'', JFunction ''propertyIsEnumerable''),
      (''toString'', JFunction ''toString''),
      (''valueOf'', JFunction ''valueOf''),
      (''__proto__'', JObject ''Object.prototype''),
      (''toLocaleString'', JFunction ''toLocaleString'')]"

definition get_property :: "(string \<times> jsval) list \<Rightarrow> string \<Rightarrow> jsval" where
  "get_property own key =
     (case map_of own key of
        Some v \<Rightarrow> v
      | None \<Rightarrow> (case map_of Object_prototype key of Some v \<Rightarrow> v | None \<Rightarrow> JUndefined))"

text \<open>A call of \<^verbatim>\<open>window.open\<close>, with its three arguments.\<close>

record open_call =
  url :: jsval
  window_name :: string
  features :: string

text \<open>
  \<^verbatim>\<open>shareGift\<close> of \<^verbatim>\<open>script.js\<close> (lines 145-166) and of the controller (lines 214-227).
  Each takes the calls of \<^verbatim>\<open>window.open\<close> made so far and returns them with its own.
\<close>

definition shareGift :: "string \<Rightarrow> open_call list \<Rightarrow> open_call list" where
  "shareGift platform opened =
     (let shareUrl =
            (if platform = ''twitter'' then
               ''https://twitter.com/intent/tweet?text='' @ encodeURIComponent share_text
                 @ ''&url='' @ encodeURIComponent giftUrl
             else if platform = ''facebook'' then
               ''https://www.facebook.com/sharer/sharer.php?u='' @ encodeURIComponent giftUrl
             else if platform = ''line'' then
               ''https://social-plugins.line.me/lineit/share?url='' @ encodeURIComponent giftUrl
                 @ ''&text='' @ encodeURIComponent share_text
             else '''')
      in if shareUrl \<noteq> [] then
           opened @ [\<lparr>url = JString shareUrl, window_name = ''_blank'',
                       features = ''width=600,height=400''\<rparr>]
         else opened)"

definition shareUrls :: "(string \<times> jsval) list" where
  "shareUrls =
     [(''twitter'', JString (''https://twitter.com/intent/tweet?text=''
                               @ encodeURIComponent app_share_text
                               @ ''&url='' @ encodeURIComponent giftUrl)),
      (''facebook'', JString (''https://www.facebook.com/sharer/sharer.php?u=''
                                @ encodeURIComponent giftUrl)),
      (''line'', JString (''https://social-plugins.line.me/lineit/share?url=''
                            @ encodeURIComponent giftUrl
                            @ ''&text='' @ encodeURIComponent app_share_text))]"

definition app_shareGift :: "string \<Rightarrow> open_call list \<Rightarrow> open_call list" where
  "app_shareGift platform opened =
     (if truthy (get_property shareUrls platform) then
        opened @ [\<lparr>url = get_property shareUrls platform, window_name = ''_blank'',
                    features = ''width=600,height=400,noopener,noreferrer''\<rparr>]
      else opened)"

section \<open>Document nodes, timers and the clipboard\<close>

text \<open>
  The toast and clipboard code creates nodes, hangs them under the body, and schedules
  callbacks. A node is named by a number; \<^verbatim>\<open>createElement\<close> hands out the next unused
  one. A node's inline style is its list of declarations. Its parent is the body, some
  other node of the document, or none.
\<close>

datatype container = Body | Elsewhere

record node =
  tagName :: string
  className :: string
  textContent :: string
  node_value :: string
  style :: "(string \<times> string) list"
  parentNode :: "container option"

fun set_prop :: "string \<Rightarrow> string \<Rightarrow> (string \<times> string) list \<Rightarrow> (string \<times> string) list" where
  "set_prop k v [] = [(k, v)]"
| "set_prop k v ((k', v') # ps) = (if k = k' then (k, v) # ps else (k', v') # set_prop k v ps)"

text \<open>
  The callbacks the code hands to \<^verbatim>\<open>requestAnimationFrame\<close> and \<^verbatim>\<open>setTimeout\<close>, each
  closed over its toast node: in the controller's \<^verbatim>\<open>showNotification\<close> the frame callback
  (lines 286-288), the outer timeout (lines 291-298) and the inner one (lines 293-297);
  in \<^verbatim>\<open>showCopyNotification\<close> of \<^verbatim>\<open>script.js\<close> the outer timeout (lines 224-229) and the
  inner one (lines 226-228).
\<close>

datatype action =
    App_animate_in nat
  | App_exit nat
  | App_remove nat
  | Script_exit nat
  | Script_remove nat

text \<open>What \<^verbatim>\<open>document.execCommand('copy')\<close> does in the environment at hand.\<close>

datatype exec_outcome = ExecTrue | ExecFalse | ExecThrows

datatype platform_call = WriteText string | ExecCommand string

text \<open>
  The state: the nodes and the next unused name; the clock in milliseconds, the pending
  timers with their due times, the pending frame callbacks; the console; the errors that
  left a callback uncaught; the selected node and the clipboard's content; the calls made
  to the two copy capabilities, oldest first. Three fields describe the environment and
  are never written: whether \<^verbatim>\<open>navigator.clipboard\<close> exists, whether its write is
  fulfilled, and what \<^verbatim>\<open>execCommand\<close> does.
\<close>

record doc =
  nodes :: "nat \<Rightarrow> node"
  next_node :: nat
  now :: nat
  timers :: "(nat \<times> action) list"
  frames :: "action list"
  console :: "string list"
  uncaught :: "js_error list"
  selected :: "nat option"
  clipboard :: "string option"
  calls :: "platform_call list"
  has_clipboard :: bool
  write_ok :: bool
  exec_copy :: exec_outcome

definition update_node :: "nat \<Rightarrow> (node \<Rightarrow> node) \<Rightarrow> doc \<Rightarrow> doc" where
  "update_node n f st = st\<lparr>nodes := (nodes st)(n := f (nodes st n))\<rparr>"

definition createElement :: "string \<Rightarrow> doc \<Rightarrow> nat \<times> doc" where
  "createElement tag st =
     (next_node st,
      st\<lparr>nodes := (nodes st)(next_node st :=
             \<lparr>tagName = tag, className = '''', textContent = '''', node_value = '''',
              style = [], parentNode = None\<rparr>),
         next_node := Suc (next_node st)\<rparr>)"

text \<open>\<^verbatim>\<open>document.body.appendChild\<close> and \<^verbatim>\<open>document.body.removeChild\<close>: the second
  throws when the node is not a child of the body.\<close>

definition appendChild :: "nat \<Rightarrow> doc \<Rightarrow> doc" where
  "appendChild n st = update_node n (\<lambda>x. x\<lparr>parentNode := Some Body\<rparr>) st"

definition removeChild :: "nat \<Rightarrow> doc \<Rightarrow> doc result" where
  "removeChild n st =
     (if parentNode (nodes st n) = Some Body
      then (None, update_node n (\<lambda>x. x\<lparr>parentNode := None\<rparr>) st)
      else (Some NotFoundError, st))"

definition set_style :: "nat \<Rightarrow> string \<Rightarrow> string \<Rightarrow> doc \<Rightarrow> doc" where
  "set_style n k v st = update_node n (\<lambda>x. x\<lparr>style := set_prop k v (style x)\<rparr>) st"

definition setTimeout :: "action \<Rightarrow> nat \<Rightarrow> doc \<Rightarrow> doc" where
  "setTimeout a delay st = st\<lparr>timers := timers st @ [(now st + delay, a)]\<rparr>"

definition requestAnimationFrame :: "action \<Rightarrow> doc \<Rightarrow> doc" where
  "requestAnimationFrame a st = st\<lparr>frames := frames st @ [a]\<rparr>"

definition console_error :: "string \<Rightarrow> doc \<Rightarrow> doc" where
  "console_error msg st = st\<lparr>console := console st @ [msg]\<rparr>"

subsection \<open>Toasts\<close>

text \<open>The controller's \<^verbatim>\<open>showNotification\<close> (lines 263-299).\<close>

definition showNotification :: "string \<Rightarrow> string \<Rightarrow> doc \<Rightarrow> doc" where
  "showNotification message type st =
     (let (notification, st1) = createElement ''div'' st;
          st2 = update_node notification
                  (\<lambda>x. x\<lparr>className := ''notification notification--'' @ type,
                          textContent := message,
                          style :=
                            [(''position'', ''fixed''), (''top'', ''20px''), (''right'', ''20px''),
                             (''background'',
                                if type = ''success'' then ''#28a745''
                                else if type = ''error'' then ''#dc3545'' else ''#007bff''),
                             (''color'', ''white''), (''padding'', ''15px 20px''),
                             (''border-radius'', ''10px''), (''z-index'', ''10000''),
                             (''font-weight'', ''500''),
                             (''box-shadow'', ''0 5px 15px rgba(0,0,0,0.3)''),
                             (''transform'', ''translateX(100%)''),
                             (''transition'', ''transform 0.3s ease'')]\<rparr>) st1;
          st3 = appendChild notification st2;
          st4 = requestAnimationFrame (App_animate_in notification) st3
      in setTimeout (App_exit notification) 3000 st4)"

text \<open>\<^verbatim>\<open>showCopyNotification\<close> of \<^verbatim>\<open>script.js\<close> (lines 203-230).\<close>

definition showCopyNotification :: "doc \<Rightarrow> doc" where
  "showCopyNotification st =
     (let (notification, st1) = createElement ''div'' st;
          st2 = update_node notification
                  (\<lambda>x. x\<lparr>textContent := ''Gift link copied to clipboard!'',
                          style :=
                            [(''position'', ''fixed''), (''top'', ''20px''), (''right'', ''20px''),
                             (''background'', ''#28a745''),
                             (''color'', ''white''), (''padding'', ''15px 20px''),
                             (''border-radius'', ''10px''), (''z-index'', ''10000''),
                             (''font-weight'', ''500''),
                             (''box-shadow'', ''0 5px 15px rgba(0,0,0,0.3)''),
                             (''animation'', ''slideIn 0.3s ease'')]\<rparr>) st1;
          st3 = appendChild notification st2
      in setTimeout (Script_exit notification) 3000 st3)"

text \<open>Running a callback. Only the removals can throw.\<close>

fun run_action :: "action \<Rightarrow> doc \<Rightarrow> doc result" where
  "run_action (App_animate_in n) st = (None, set_style n ''transform'' ''translateX(0)'' st)"
| "run_action (App_exit n) st =
     (None, setTimeout (App_remove n) 300 (set_style n ''transform'' ''translateX(100%)'' st))"
| "run_action (App_remove n) st =
     (if parentNode (nodes st n) \<noteq> None then removeChild n st else (None, st))"
| "run_action (Script_exit n) st =
     (None, setTimeout (Script_remove n) 300 (set_style n ''animation'' ''slideOut 0.3s ease'' st))"
| "run_action (Script_remove n) st = removeChild n st"

subsection \<open>A deterministic timer model\<close>

text \<open>
  The event loop runs a callback to its end; an error thrown by it is reported and
  the loop goes on. One millisecond passes with \<open>tick\<close>: the clock moves, and the timers
  then due run, earliest due time first and in the order of their scheduling among
  equals; timers they schedule wait for a later tick. \<open>elapse d\<close> lets \<open>d\<close> milliseconds
  pass. \<open>frame\<close> runs the pending frame callbacks.
\<close>

definition exec :: "action \<Rightarrow> doc \<Rightarrow> doc" where
  "exec a st =
     (case run_action a st of
        (None, st') \<Rightarrow> st'
      | (Some e, st') \<Rightarrow> st'\<lparr>uncaught := uncaught st' @ [e]\<rparr>)"

definition is_due :: "nat \<Rightarrow> nat \<times> action \<Rightarrow> bool" where
  "is_due t x = (fst x \<le> t)"

definition fire_due :: "doc \<Rightarrow> doc" where
  "fire_due st =
     fold (\<lambda>x. exec (snd x))
          (sort_key fst (filter (is_due (now st)) (timers st)))
          (st\<lparr>timers := filter (\<lambda>x. \<not> is_due (now st) x) (timers st)\<rparr>)"

definition tick :: "doc \<Rightarrow> doc" where
  "tick st = fire_due (st\<lparr>now := Suc (now st)\<rparr>)"

primrec elapse :: "nat \<Rightarrow> doc \<Rightarrow> doc" where
  "elapse 0 st = st"
| "elapse (Suc d) st = elapse d (tick st)"

definition frame :: "doc \<Rightarrow> doc" where
  "frame st = fold exec (frames st) (st\<lparr>frames := []\<rparr>)"

text \<open>
  What can happen around a toast while it lives: time passes, a frame is drawn, another
  toast is shown by either presenter, the gift link is copied by either variant (the
  copy functions are defined below; \<open>step\<close> follows them).
\<close>

datatype event = Elapse nat | Frame | Show string string | ShowCopy | Copy | AppCopy



text \<open>The node an \<open>action\<close> is closed over.\<close>

fun node_of :: "action \<Rightarrow> nat" where
  "node_of (App_animate_in n) = n"
| "node_of (App_exit n) = n"
| "node_of (App_remove n) = n"
| "node_of (Script_exit n) = n"
| "node_of (Script_remove n) = n"

text \<open>
  A state is well formed when every pending callback is closed over a node that has
  been created, and no pending timer is overdue. The states the code reaches from an
  empty schedule are of this kind.
\<close>

definition wf_doc :: "doc \<Rightarrow> bool" where
  "wf_doc st =
     ((\<forall>x \<in> set (timers st). node_of (snd x) < next_node st \<and> now st < fst x)
      \<and> (\<forall>a \<in> set (frames st). node_of a < next_node st))"

subsection \<open>Copying the gift link\<close>

text \<open>
  \<^verbatim>\<open>navigator.clipboard.writeText\<close>: the call is recorded; the flag says whether the
  promise is fulfilled. \<^verbatim>\<open>textArea.select()\<close> selects the node (\<^verbatim>\<open>textArea.focus()\<close>,
  which \<^verbatim>\<open>script.js\<close> calls before it, changes nothing that is kept here).
  \<^verbatim>\<open>document.execCommand('copy')\<close> copies the value of the selected node, or does
  nothing, or throws.
\<close>

definition writeText :: "string \<Rightarrow> doc \<Rightarrow> bool \<times> doc" where
  "writeText s st =
     (let st1 = st\<lparr>calls := calls st @ [WriteText s]\<rparr>
      in if write_ok st then (True, st1\<lparr>clipboard := Some s\<rparr>) else (False, st1))"

definition select :: "nat \<Rightarrow> doc \<Rightarrow> doc" where
  "select n st = st\<lparr>selected := Some n\<rparr>"

definition execCommand :: "string \<Rightarrow> doc \<Rightarrow> doc result" where
  "execCommand cmd st =
     (let st1 = st\<lparr>calls := calls st @ [ExecCommand cmd]\<rparr>
      in case exec_copy st of
           ExecTrue \<Rightarrow>
             (None, case selected st1 of
                      None \<Rightarrow> st1
                    | Some n \<Rightarrow> st1\<lparr>clipboard := Some (node_value (nodes st1 n))\<rparr>)
         | ExecFalse \<Rightarrow> (None, st1)
         | ExecThrows \<Rightarrow> (Some (Error ''execCommand''), st1))"

text \<open>\<^verbatim>\<open>script.js\<close>: \<^verbatim>\<open>fallbackCopyTextToClipboard\<close> (lines 182-201) and
  \<^verbatim>\<open>copyGiftLink\<close> (lines 168-180). The handlers of the write promise run after
  \<^verbatim>\<open>copyGiftLink\<close> has returned: an error thrown in the \<^verbatim>\<open>catch\<close> handler would be
  reported as uncaught, not thrown to the caller.\<close>

definition fallbackCopyTextToClipboard :: "string \<Rightarrow> doc \<Rightarrow> doc result" where
  "fallbackCopyTextToClipboard text st =
     (let (textArea, st1) = createElement ''textarea'' st;
          st2 = update_node textArea (\<lambda>x. x\<lparr>node_value := text\<rparr>) st1;
          st3 = set_style textArea ''top'' ''0'' st2;
          st4 = set_style textArea ''left'' ''0'' st3;
          st5 = set_style textArea ''position'' ''fixed'' st4;
          st6 = appendChild textArea st5;
          st7 = select textArea st6;
          st8 = (case execCommand ''copy'' st7 of
                   (None, s) \<Rightarrow> showCopyNotification s
                 | (Some err, s) \<Rightarrow> console_error ''Fallback: Oops, unable to copy'' s)
      in removeChild textArea st8)"

definition copyGiftLink :: "doc \<Rightarrow> doc result" where
  "copyGiftLink st =
     (if has_clipboard st then
        (case writeText giftUrl st of
           (True, st1) \<Rightarrow> (None, showCopyNotification st1)
         | (False, st1) \<Rightarrow>
             (case fallbackCopyTextToClipboard giftUrl st1 of
                (None, st2) \<Rightarrow> (None, st2)
              | (Some e, st2) \<Rightarrow> (None, st2\<lparr>uncaught := uncaught st2 @ [e]\<rparr>)))
      else fallbackCopyTextToClipboard giftUrl st)"

text \<open>The controller: \<^verbatim>\<open>fallbackCopyText\<close> (lines 245-260) and \<^verbatim>\<open>copyGiftLink\<close>
  (lines 229-243). The value thrown by a rejected write is a \<^verbatim>\<open>DOMException\<close>; only its
  being thrown matters.\<close>

definition fallbackCopyText :: "string \<Rightarrow> doc \<Rightarrow> doc result" where
  "fallbackCopyText text st =
     (let (textArea, st1) = createElement ''textarea'' st;
          st2 = update_node textArea (\<lambda>x. x\<lparr>node_value := text\<rparr>) st1;
          st3 = update_node textArea
                  (\<lambda>x. x\<lparr>style := [(''position'', ''fixed''), (''top'', ''0''), (''left'', ''0''),
                                    (''opacity'', ''0''), (''pointer-events'', ''none'')]\<rparr>) st2;
          st4 = appendChild textArea st3;
          st5 = select textArea st4;
          (thrown, st6) = (case execCommand ''copy'' st5 of
                             (None, s) \<Rightarrow> (None, s)
                           | (Some err, s) \<Rightarrow> (Some (Error ''Fallback copy failed''), s))
      in case removeChild textArea st6 of
           (None, st7) \<Rightarrow> (thrown, st7)
         | (Some e, st7) \<Rightarrow> (Some e, st7))"

definition app_copyGiftLink :: "doc \<Rightarrow> doc result" where
  "app_copyGiftLink st =
     (let (thrown, st1) =
            (if has_clipboard st then
               (case writeText giftUrl st of
                  (True, s) \<Rightarrow> (None, s)
                | (False, s) \<Rightarrow> (Some (Error ''DOMException''), s))
             else fallbackCopyText giftUrl st)
      in case thrown of
           None \<Rightarrow> (None, showNotification ''Gift link copied to clipboard!'' ''success'' st1)
         | Some err \<Rightarrow>
             (None, showNotification ''Failed to copy link'' ''error''
                      (console_error ''Copy failed:'' st1)))"

subsection \<open>Sequences of events\<close>

fun step :: "event \<Rightarrow> doc \<Rightarrow> doc" where
  "step (Elapse d) st = elapse d st"
| "step Frame st = frame st"
| "step (Show message type) st = showNotification message type st"
| "step ShowCopy st = showCopyNotification st"
| "step Copy st = snd (copyGiftLink st)"
| "step AppCopy st = snd (app_copyGiftLink st)"

definition run :: "event list \<Rightarrow> doc \<Rightarrow> doc" where
  "run es st = fold step es st"



section \<open>Throttle\<close>

text \<open>
  \<^verbatim>\<open>throttle(func, limit)\<close> (lines 377-388) returns a wrapper closed over the flag
  \<^verbatim>\<open>inThrottle\<close>. The record holds that flag, the clock, the due times of the pending
  callbacks that clear the flag, and the state \<open>inner\<close> on which \<open>func\<close> works. \<open>func\<close>
  may throw; the two assignments after its call are then not reached.
\<close>

record 's throttled =
  inThrottle :: bool
  thr_now :: nat
  thr_timers :: "nat list"
  inner :: 's

definition throttle :: "('s \<Rightarrow> 's result) \<Rightarrow> nat \<Rightarrow> 's throttled \<Rightarrow> 's throttled result" where
  "throttle func limit t =
     (if \<not> inThrottle t then
        (case func (inner t) of
           (Some e, s) \<Rightarrow> (Some e, t\<lparr>inner := s\<rparr>)
         | (None, s) \<Rightarrow>
             (None, t\<lparr>inner := s, inThrottle := True,
                      thr_timers := thr_timers t @ [thr_now t + limit]\<rparr>))
      else (None, t))"

text \<open>One millisecond, and \<open>d\<close> of them: a due callback clears the flag.\<close>

definition thr_tick :: "'s throttled \<Rightarrow> 's throttled" where
  "thr_tick t =
     (let t1 = t\<lparr>thr_now := Suc (thr_now t)\<rparr>
      in if filter (\<lambda>due. due \<le> thr_now t1) (thr_timers t1) \<noteq> []
         then t1\<lparr>inThrottle := False,
                 thr_timers := filter (\<lambda>due. \<not> due \<le> thr_now t1) (thr_timers t1)\<rparr>
         else t1)"

primrec thr_elapse :: "nat \<Rightarrow> 's throttled \<Rightarrow> 's throttled" where
  "thr_elapse 0 t = t"
| "thr_elapse (Suc d) t = thr_elapse d (thr_tick t)"

text \<open>
  The flag is set exactly while one clearing callback is pending, and that one is not
  overdue: so it is at the start, and every call and every tick keeps it so.
\<close>

definition thr_wf :: "'s throttled \<Rightarrow> bool" where
  "thr_wf t =
     (if inThrottle t then (case thr_timers t of [due] \<Rightarrow> thr_now t \<le> due | _ \<Rightarrow> False)
      else thr_timers t = [])"

section \<open>Invariants and example states\<close>

text \<open>
  The two toast presenters share the shape of their life cycle; \<open>exit_of\<close> and
  \<open>remove_of\<close> name the two timer callbacks of a toast, for the controller (\<open>True\<close>) and
  for \<^verbatim>\<open>script.js\<close> (\<open>False\<close>). \<open>pending a st\<close> lists the due times at which the callback
  \<open>a\<close> is scheduled in \<open>st\<close>.
\<close>

fun exit_of :: "bool \<Rightarrow> nat \<Rightarrow> action" where
  "exit_of True n = App_exit n"
| "exit_of False n = Script_exit n"

fun remove_of :: "bool \<Rightarrow> nat \<Rightarrow> action" where
  "remove_of True n = App_remove n"
| "remove_of False n = Script_remove n"


text \<open>
  The timers closed over a node; the callbacks that leave a node's place in the document
  and its timers alone; no timer overdue; and the invariant of a toast \<open>n\<close> shown at time
  \<open>t0\<close>: until 3000 ms it hangs under the body with its exit timer alone pending, from
  then until 3300 ms it hangs there with its removal timer alone pending, after that it
  has no parent and no timer.
\<close>

definition mine :: "nat \<Rightarrow> (nat \<times> action) list \<Rightarrow> (nat \<times> action) list" where
  "mine n ts = filter (\<lambda>x. node_of (snd x) = n) ts"


definition fresh :: "doc \<Rightarrow> bool" where
  "fresh st = (\<forall>x \<in> set (timers st). now st < fst x)"




text \<open>Example states, used to run the code on concrete inputs.\<close>

definition unscrollable_page :: "rat \<Rightarrow> scroll_page" where
  "unscrollable_page s =
     \<lparr>pageYOffset = s, scrollHeight = 800, innerHeight = 800,
      scroll_to_top = Some '''', reading_progress = Some None, scrollTo_calls = []\<rparr>"

definition long_page :: "rat \<Rightarrow> scroll_page" where
  "long_page s =
     \<lparr>pageYOffset = s, scrollHeight = 2800, innerHeight = 800,
      scroll_to_top = Some '''', reading_progress = Some None, scrollTo_calls = []\<rparr>"

definition a_video :: video_el where
  "a_video = \<lparr>paused = True, currentTime = 0, can_play = True\<rparr>"

definition page_without_modal :: modal_page where
  "page_without_modal =
     \<lparr>videoModal = None, heroVideo = Some a_video, body_overflow = '''', modal_console = []\<rparr>"

definition page_without_video :: modal_page where
  "page_without_video =
     \<lparr>videoModal = Some '''', heroVideo = None, body_overflow = '''', modal_console = []\<rparr>"


definition fresh_page :: watch_page where
  "fresh_page =
     \<lparr>anim = (\<lambda>n. \<lparr>opacity = '''', translate = '''', transition = ''''\<rparr>),
      observed = {},
      images = (\<lambda>n. \<lparr>src = '''', data_src = ''a.png'', classList = [''lazy'']\<rparr>),
      img_observed = {},
      applied = []\<rparr>"

definition seen :: "nat \<Rightarrow> entry" where
  "seen n = \<lparr>target = n, isIntersecting = True\<rparr>"

definition blank_node :: node where
  "blank_node = \<lparr>tagName = '''', className = '''', textContent = '''', node_value = '''',
                 style = [], parentNode = None\<rparr>"

text \<open>
  A document without nodes or timers at time 0, in an environment where
  \<^verbatim>\<open>navigator.clipboard\<close> exists and rejects the write; then that document after the
  controller has shown a toast (node 0) and something else has moved the toast under
  another parent, or detached it.
\<close>

definition empty_doc :: doc where
  "empty_doc =
     \<lparr>nodes = (\<lambda>n. blank_node), next_node = 0, now = 0, timers = [], frames = [],
      console = [], uncaught = [], selected = None, clipboard = None, calls = [],
      has_clipboard = True, write_ok = False, exec_copy = ExecTrue\<rparr>"

definition moved_toast_doc :: doc where
  "moved_toast_doc =
     update_node 0 (\<lambda>x. x\<lparr>parentNode := Some Elsewhere\<rparr>)
       (showNotification ''Saved'' ''info'' empty_doc)"

definition detached_toast_doc :: doc where
  "detached_toast_doc =
     update_node 0 (\<lambda>x. x\<lparr>parentNode := None\<rparr>)
       (showNotification ''Saved'' ''info'' empty_doc)"

definition idle_throttle :: "nat throttled" where
  "idle_throttle = \<lparr>inThrottle = False, thr_now = 0, thr_timers = [], inner = 0\<rparr>"

text \<open>A function that counts its calls, and one that counts them and throws each time.\<close>

definition count_calls :: "nat \<Rightarrow> nat result" where
  "count_calls k = (None, Suc k)"

definition count_and_throw :: "nat \<Rightarrow> nat result" where
  "count_and_throw k = (Some (Error ''boom''), Suc k)"

section \<open>Properties of the scroll reactor\<close>

text \<open>
  On a page taller than its viewport, and for an offset that is not negative, the width
  written by the controller's \<^verbatim>\<open>updateProgressBar\<close> is the clamp of the specification.
\<close>

lemma progress_bar_scrollable:
  assumes "reading_progress p = Some w" and "0 \<le> pageYOffset p"
    and "innerHeight p < scrollHeight p"
  shows "reading_progress (updateProgressBar p) =
           Some (Some (Percent (Finite (spec_clamp
              (pageYOffset p / of_int (scrollHeight p - innerHeight p) * 100) 0 100))))"
  using assms by (simp add: updateProgressBar_def spec_clamp_def min_def max_def)

text \<open>
  Claim C1. The width of the reading-progress bar is the clamp of \<open>s / (H - V) * 100\<close> to
  \<open>[0, 100]\<close> when \<open>H > V\<close>, and is 0 when \<open>H = V\<close>, without a division by zero. The code
  has no branch for \<open>H = V\<close>: it divides by zero. At offset 0 the quotient is \<^verbatim>\<open>NaN\<close>
  and the width written is \<^verbatim>\<open>NaN%\<close>; at a positive offset the quotient is infinite
  and the width written is \<^verbatim>\<open>100%\<close>. Neither is 0.
\<close>

theorem progress_bar_unscrollable:
  "reading_progress (updateProgressBar (unscrollable_page 0)) = Some (Some (Percent NaN))
   \<and> reading_progress (updateProgressBar (unscrollable_page 120))
       = Some (Some (Percent (Finite 100)))"
  by (simp add: updateProgressBar_def unscrollable_page_def)

text \<open>
  Claim C8. After the scroll handler has run (the listener of \<^verbatim>\<open>script.js\<close>, the
  controller's \<^verbatim>\<open>onScroll\<close>), the scroll-to-top control, when the page has one, is shown
  (\<^verbatim>\<open>display\<close> is \<^verbatim>\<open>block\<close>) if the offset is above 300 and hidden (\<^verbatim>\<open>none\<close>) if not,
  for every offset. A click on it, dispatched by the controller as the action
  \<^verbatim>\<open>scroll-to-top\<close>, and \<^verbatim>\<open>scrollToTop\<close> itself ask the window to scroll to offset 0.
\<close>

theorem scroll_button_visibility:
  assumes "scroll_to_top p = Some d"
  shows "scroll_to_top (scroll_listener p) = Some (if 300 < pageYOffset p then ''block'' else ''none'')
         \<and> scroll_to_top (onScroll p) = Some (if 300 < pageYOffset p then ''block'' else ''none'')
         \<and> (scroll_to_top (scroll_listener p) = Some ''block'') = (300 < pageYOffset p)
         \<and> (scroll_to_top (onScroll p) = Some ''block'') = (300 < pageYOffset p)
         \<and> scrollTo_calls (scrollToTop p) = scrollTo_calls p @ [\<lparr>scroll_top = 0, behavior = ''smooth''\<rparr>]
         \<and> handleClicks_scroll (Some ''scroll-to-top'') p = scrollToTop p"
  using assms
  by (cases "reading_progress p")
     (simp_all add: scroll_listener_def onScroll_def updateScrollButton_def updateProgressBar_def
        scrollToTop_def handleClicks_scroll_def)

theorem scroll_button_visibility_witness:
  "scroll_to_top (long_page 301) = Some ''''
   \<and> scroll_to_top (onScroll (long_page 301)) = Some ''block''
   \<and> scroll_to_top (scroll_listener (long_page 300)) = Some ''none''
   \<and> scrollTo_calls (scrollToTop (long_page 301)) = [\<lparr>scroll_top = 0, behavior = ''smooth''\<rparr>]"
proof -
  have a: "scroll_to_top (long_page 301) = Some ''''" and b: "scroll_to_top (long_page 300) = Some ''''"
    by (simp_all add: long_page_def)
  show ?thesis
    using scroll_button_visibility [OF a] scroll_button_visibility [OF b] a
    by (simp add: long_page_def)
qed

section \<open>Properties of the video modal\<close>

text \<open>
  With the container or the media element missing, the controller's two operations
  change nothing and cannot throw (they return a state, not a result).
\<close>

lemma app_modal_missing_markup:
  "videoModal p = None \<or> heroVideo p = None \<Longrightarrow> app_playVideo p = p \<and> app_closeVideo p = p"
  by (cases "videoModal p"; cases "heroVideo p") (simp_all add: app_playVideo_def app_closeVideo_def)

text \<open>
  Claim C3. Opening or closing the modal when the container or the media element is
  absent is a silent no-op. The functions of \<^verbatim>\<open>script.js\<close> do not test for \<^verbatim>\<open>null\<close>:
  without the container \<^verbatim>\<open>playVideo\<close> throws a \<^verbatim>\<open>TypeError\<close>; without the media element
  \<^verbatim>\<open>playVideo\<close> and \<^verbatim>\<open>closeVideo\<close> first write the container's \<^verbatim>\<open>display\<close> and then throw.
\<close>

theorem script_modal_missing_markup:
  "playVideo page_without_modal = (Some TypeError, page_without_modal)
   \<and> closeVideo page_without_modal = (Some TypeError, page_without_modal)
   \<and> playVideo page_without_video
       = (Some TypeError, page_without_video\<lparr>videoModal := Some ''block''\<rparr>)
   \<and> closeVideo page_without_video
       = (Some TypeError, page_without_video\<lparr>videoModal := Some ''none''\<rparr>)"
  by (simp add: playVideo_def closeVideo_def page_without_modal_def page_without_video_def)







section \<open>Properties of sharing\<close>

lemma encoded_giftUrl:
  "encodeURIComponent giftUrl = ''https%3A%2F%2Fwww.patreon.com%2FMesmerizingIndianAILookbook%2Fgift''"
  by (simp add: encodeURIComponent_def giftUrl_def encode_byte_def unreserved_def hex_digit_def)

lemma encoded_share_text:
  "encodeURIComponent share_text =
     ''%F0%9F%8E%A8%20Why%20not%20gift%20the%20world%20of%20beautiful%20AI%20art%3F%20Give%20someone%20a%20special%20experience!''"
  by (simp add: encodeURIComponent_def share_text_def text_tail_def encode_byte_def
        unreserved_def hex_digit_def)

lemma encoded_app_share_text:
  "encodeURIComponent app_share_text =
     ''%C3%B0%C5%B8%C5%BD%C2%A8%20Why%20not%20gift%20the%20world%20of%20beautiful%20AI%20art%3F%20Give%20someone%20a%20special%20experience!''"
  by (simp add: encodeURIComponent_def app_share_text_def text_tail_def encode_byte_def
        unreserved_def hex_digit_def)

text \<open>
  For \<^verbatim>\<open>twitter\<close> both variants open one window, named \<^verbatim>\<open>_blank\<close>, 600 by 400, on the
  tweet URL with the encoded text and the encoded gift URL as its two parameters.
\<close>

lemma shareGift_twitter:
  "shareGift ''twitter'' opened = opened @
      [\<lparr>url = JString (''https://twitter.com/intent/tweet?text='' @ encodeURIComponent share_text
                        @ ''&url='' @ encodeURIComponent giftUrl),
        window_name = ''_blank'', features = ''width=600,height=400''\<rparr>]"
  "app_shareGift ''twitter'' opened = opened @
      [\<lparr>url = JString (''https://twitter.com/intent/tweet?text='' @ encodeURIComponent app_share_text
                        @ ''&url='' @ encodeURIComponent giftUrl),
        window_name = ''_blank'', features = ''width=600,height=400,noopener,noreferrer''\<rparr>]"
  by (simp_all add: shareGift_def app_shareGift_def shareUrls_def get_property_def)

text \<open>
  For a platform outside the three, \<^verbatim>\<open>shareGift\<close> of \<^verbatim>\<open>script.js\<close> opens nothing; the
  controller's opens nothing provided the name is not a property of \<^verbatim>\<open>Object.prototype\<close>.
\<close>

lemma shareGift_unknown:
  assumes "platform \<notin> {''twitter'', ''facebook'', ''line''}"
  shows "shareGift platform opened = opened"
    and "platform \<notin> fst ` set Object_prototype \<Longrightarrow> app_shareGift platform opened = opened"
proof -
  show "shareGift platform opened = opened"
    using assms by (simp add: shareGift_def)
  assume "platform \<notin> fst ` set Object_prototype"
  then have "map_of Object_prototype platform = None"
    by (simp add: map_of_eq_None_iff)
  then show "app_shareGift platform opened = opened"
    using assms by (simp add: app_shareGift_def shareUrls_def get_property_def)
qed

text \<open>
  Claim C5. \<^verbatim>\<open>shareGift('twitter')\<close> opens one 600 by 400 window on a URL holding the
  encoded text and gift URL, and \<^verbatim>\<open>shareGift\<close> opens no window for a platform outside
  twitter, facebook and line. The controller looks the platform up in an object
  literal, and the look-up reaches \<^verbatim>\<open>Object.prototype\<close>: for the platform
  \<^verbatim>\<open>constructor\<close> it finds the function \<^verbatim>\<open>Object\<close>, which is truthy, and opens a
  window on it. The \<^verbatim>\<open>switch\<close> of \<^verbatim>\<open>script.js\<close> opens none for the same platform.
\<close>

theorem app_shareGift_constructor:
  "app_shareGift ''constructor'' [] =
     [\<lparr>url = JFunction ''Object'', window_name = ''_blank'',
       features = ''width=600,height=400,noopener,noreferrer''\<rparr>]
   \<and> shareGift ''constructor'' [] = []"
  by (simp add: app_shareGift_def shareUrls_def get_property_def Object_prototype_def shareGift_def)

section \<open>Properties of the watchers\<close>

text \<open>What each callback does to the observed set and to the record of effects.\<close>

lemma observer_callback_eq:
  "observed (observer_callback es p) = observed p
   \<and> applied (observer_callback es p) = applied p @ map target (filter isIntersecting es)"
  unfolding observer_callback_def
  by (induction es arbitrary: p) (auto simp add: observer_entry_def)

lemma app_observer_callback_eq:
  "observed (app_observer_callback es p) = observed p - target ` {e \<in> set es. isIntersecting e}
   \<and> applied (app_observer_callback es p) = applied p @ map target (filter isIntersecting es)"
  unfolding app_observer_callback_def
  by (induction es arbitrary: p)
     (auto simp add: app_observer_entry_def unobserve_def animateElement_def)

lemma imageObserver_callback_eq:
  "img_observed (imageObserver_callback es p)
     = img_observed p - target ` {e \<in> set es. isIntersecting e}
   \<and> applied (imageObserver_callback es p) = applied p @ map target (filter isIntersecting es)"
  unfolding imageObserver_callback_def
  by (induction es arbitrary: p)
     (auto simp add: imageObserver_entry_def img_unobserve_def Let_def)

lemma app_imageObserver_callback_eq:
  "img_observed (app_imageObserver_callback es p)
     = img_observed p - target ` {e \<in> set es. isIntersecting e}
   \<and> applied (app_imageObserver_callback es p) = applied p @ map target (filter isIntersecting es)"
  unfolding app_imageObserver_callback_def
  by (induction es arbitrary: p)
     (auto simp add: app_imageObserver_entry_def img_unobserve_def loadImage_def Let_def)

text \<open>
  The controller's reveal watcher and both image watchers stop observing a target at its
  first intersecting entry, and a delivery to a page on which a target is not observed
  runs no effect on it and leaves it unobserved.
\<close>

lemma watchers_unobserve:
  assumes "e \<in> set es" and "isIntersecting e"
  shows "target e \<notin> observed (deliver app_observer_callback es p)"
    and "target e \<notin> img_observed (img_deliver imageObserver_callback es p)"
    and "target e \<notin> img_observed (img_deliver app_imageObserver_callback es p)"
  using assms
  by (auto simp add: deliver_def img_deliver_def app_observer_callback_eq
        imageObserver_callback_eq app_imageObserver_callback_eq)

lemma watchers_fire_once:
  shows "t \<notin> observed p \<Longrightarrow>
           filter (\<lambda>x. x = t) (applied (deliver app_observer_callback es p))
             = filter (\<lambda>x. x = t) (applied p)
           \<and> t \<notin> observed (deliver app_observer_callback es p)"
    and "t \<notin> img_observed p \<Longrightarrow>
           filter (\<lambda>x. x = t) (applied (img_deliver imageObserver_callback es p))
             = filter (\<lambda>x. x = t) (applied p)
           \<and> t \<notin> img_observed (img_deliver imageObserver_callback es p)"
    and "t \<notin> img_observed p \<Longrightarrow>
           filter (\<lambda>x. x = t) (applied (img_deliver app_imageObserver_callback es p))
             = filter (\<lambda>x. x = t) (applied p)
           \<and> t \<notin> img_observed (img_deliver app_imageObserver_callback es p)"
  by (auto simp add: deliver_def img_deliver_def app_observer_callback_eq
        imageObserver_callback_eq app_imageObserver_callback_eq filter_map comp_def
        filter_empty_conv)

text \<open>
  Claim C2. An element registered with the reveal watcher or the image watcher has its
  effect run at most once: the first intersecting callback unobserves it, and a second
  one re-triggers nothing. The reveal callback of \<^verbatim>\<open>script.js\<close> never unobserves. With
  element 1 registered by the set-up of \<^verbatim>\<open>script.js\<close>, the element is still observed
  after a first intersecting delivery, and a second delivery runs the effect on it
  again; the controller, with the same element and deliveries, unobserves it and runs
  the effect once.
\<close>

theorem script_reveal_refires:
  "1 \<in> observed (animate_setup [1] fresh_page)
   \<and> 1 \<in> observed (deliver observer_callback [seen 1] (animate_setup [1] fresh_page))
   \<and> applied (deliver observer_callback [seen 1]
                (deliver observer_callback [seen 1] (animate_setup [1] fresh_page))) = [1, 1]
   \<and> 1 \<notin> observed (deliver app_observer_callback [seen 1] (initializeAnimations [1] fresh_page))
   \<and> applied (deliver app_observer_callback [seen 1]
                (deliver app_observer_callback [seen 1] (initializeAnimations [1] fresh_page))) = [1]"
  by (simp add: deliver_def observer_callback_def observer_entry_def app_observer_callback_def
        app_observer_entry_def animateElement_def unobserve_def fresh_page_def seen_def
        animate_setup_def initializeAnimations_def observe_def)

section \<open>Properties of the timer model\<close>

lemma showNotification_eq:
  "showNotification message type st =
     st\<lparr>nodes := (nodes st)(next_node st :=
            \<lparr>tagName = ''div'', className = ''notification notification--'' @ type,
             textContent = message, node_value = '''',
             style = [(''position'', ''fixed''), (''top'', ''20px''), (''right'', ''20px''),
                      (''background'',
                         if type = ''success'' then ''#28a745''
                         else if type = ''error'' then ''#dc3545'' else ''#007bff''),
                      (''color'', ''white''), (''padding'', ''15px 20px''),
                      (''border-radius'', ''10px''), (''z-index'', ''10000''),
                      (''font-weight'', ''500''),
                      (''box-shadow'', ''0 5px 15px rgba(0,0,0,0.3)''),
                      (''transform'', ''translateX(100%)''),
                      (''transition'', ''transform 0.3s ease'')],
             parentNode = Some Body\<rparr>),
        next_node := Suc (next_node st),
        frames := frames st @ [App_animate_in (next_node st)],
        timers := timers st @ [(now st + 3000, App_exit (next_node st))]\<rparr>"
  by (simp add: showNotification_def createElement_def update_node_def appendChild_def
        requestAnimationFrame_def setTimeout_def)

lemma showCopyNotification_eq:
  "showCopyNotification st =
     st\<lparr>nodes := (nodes st)(next_node st :=
            \<lparr>tagName = ''div'', className = '''', textContent = ''Gift link copied to clipboard!'',
             node_value = '''',
             style = [(''position'', ''fixed''), (''top'', ''20px''), (''right'', ''20px''),
                      (''background'', ''#28a745''),
                      (''color'', ''white''), (''padding'', ''15px 20px''),
                      (''border-radius'', ''10px''), (''z-index'', ''10000''),
                      (''font-weight'', ''500''),
                      (''box-shadow'', ''0 5px 15px rgba(0,0,0,0.3)''),
                      (''animation'', ''slideIn 0.3s ease'')],
             parentNode = Some Body\<rparr>),
        next_node := Suc (next_node st),
        timers := timers st @ [(now st + 3000, Script_exit (next_node st))]\<rparr>"
  by (simp add: showCopyNotification_def createElement_def update_node_def appendChild_def
        setTimeout_def)

lemma now_exec [simp]: "now (exec a s) = now s"
  by (cases a) (simp_all add: exec_def removeChild_def update_node_def set_style_def setTimeout_def)

lemma next_node_exec [simp]: "next_node (exec a s) = next_node s"
  by (cases a) (simp_all add: exec_def removeChild_def update_node_def set_style_def setTimeout_def)

lemma frames_exec [simp]: "frames (exec a s) = frames s"
  by (cases a) (simp_all add: exec_def removeChild_def update_node_def set_style_def setTimeout_def)

lemma fresh_exec: "fresh s \<Longrightarrow> fresh (exec a s)"
  by (cases a)
     (simp_all add: fresh_def exec_def removeChild_def update_node_def set_style_def setTimeout_def)



lemma fold_exec_simps [simp]:
  "now (fold exec as s) = now s"
  "next_node (fold exec as s) = next_node s"
  "frames (fold exec as s) = frames s"
  by (induction as arbitrary: s) simp_all

lemma fresh_fold_exec: "fresh s \<Longrightarrow> fresh (fold exec as s)"
  by (induction as arbitrary: s) (simp_all add: fresh_exec)


lemma node_of_exit_of [simp]: "node_of (exit_of app n) = n"
  by (cases app) simp_all

lemma node_of_remove_of [simp]: "node_of (remove_of app n) = n"
  by (cases app) simp_all


lemma mine_simps [simp]:
  "mine n [] = []"
  "mine n (x # xs) = (if node_of (snd x) = n then x # mine n xs else mine n xs)"
  "mine n (xs @ ys) = mine n xs @ mine n ys"
  by (simp_all add: mine_def)





lemma mine_member: "mine n ts = [x] \<Longrightarrow> x \<in> set ts"
proof -
  assume "mine n ts = [x]"
  then have "x \<in> set (filter (\<lambda>x. node_of (snd x) = n) ts)"
    by (simp add: mine_def)
  then show ?thesis by simp
qed

lemma tick_unfold:
  "tick st = fold exec (map snd (sort_key fst (filter (is_due (Suc (now st))) (timers st))))
                  (st\<lparr>now := Suc (now st),
                      timers := filter (\<lambda>x. \<not> is_due (Suc (now st)) x) (timers st)\<rparr>)"
  by (simp add: tick_def fire_due_def fold_map comp_def)


















lemma now_tick [simp]: "now (tick st) = Suc (now st)"
  by (simp add: tick_unfold)

lemma now_elapse [simp]: "now (elapse d st) = now st + d"
  by (induction d arbitrary: st) simp_all

lemma now_fallback [simp]:
  "now (snd (fallbackCopyTextToClipboard text st)) = now st"
  "now (snd (fallbackCopyText text st)) = now st"
  by (cases "exec_copy st";
      simp add: fallbackCopyTextToClipboard_def fallbackCopyText_def createElement_def
        update_node_def appendChild_def set_style_def select_def execCommand_def
        removeChild_def console_error_def showCopyNotification_eq)+

lemma now_copyGiftLink [simp]:
  "now (snd (copyGiftLink st)) = now st"
  "now (snd (app_copyGiftLink st)) = now st"
proof -
  show "now (snd (copyGiftLink st)) = now st"
    by (cases "has_clipboard st"; cases "write_ok st";
        cases "fallbackCopyTextToClipboard giftUrl (st\<lparr>calls := calls st @ [WriteText giftUrl]\<rparr>)")
       (use now_fallback(1) [of giftUrl "st\<lparr>calls := calls st @ [WriteText giftUrl]\<rparr>"] in
         \<open>simp_all add: copyGiftLink_def writeText_def showCopyNotification_eq split: option.splits\<close>)
  show "now (snd (app_copyGiftLink st)) = now st"
    by (cases "has_clipboard st"; cases "write_ok st"; cases "fallbackCopyText giftUrl st")
       (use now_fallback(2) [of giftUrl st] in
         \<open>simp_all add: app_copyGiftLink_def writeText_def showNotification_eq console_error_def
            split: option.splits\<close>)
qed





text \<open>
  Well-formedness holds of the empty schedule and is kept by every event, so the
  states reached from there are well formed.
\<close>

lemma wf_doc_alt:
  "wf_doc st = (fresh st \<and> (\<forall>x \<in> set (timers st). node_of (snd x) < next_node st)
                \<and> (\<forall>a \<in> set (frames st). node_of a < next_node st))"
  by (auto simp add: wf_doc_def fresh_def)

lemma bound_exec:
  "node_of a < next_node s \<Longrightarrow> \<forall>x \<in> set (timers s). node_of (snd x) < next_node s \<Longrightarrow>
     \<forall>x \<in> set (timers (exec a s)). node_of (snd x) < next_node s"
  by (cases a)
     (auto simp add: exec_def removeChild_def update_node_def set_style_def setTimeout_def)

lemma bound_fold_exec:
  "\<forall>a \<in> set as. node_of a < next_node s \<Longrightarrow>
   \<forall>x \<in> set (timers s). node_of (snd x) < next_node s \<Longrightarrow>
     \<forall>x \<in> set (timers (fold exec as s)). node_of (snd x) < next_node s"
proof (induction as arbitrary: s)
  case Nil
  then show ?case by simp
next
  case (Cons a as)
  have "\<forall>x \<in> set (timers (fold exec as (exec a s))). node_of (snd x) < next_node (exec a s)"
    using Cons.prems bound_exec [of a s] by (intro Cons.IH) simp_all
  then show ?case by simp
qed

lemma wf_doc_tick: assumes "wf_doc st" shows "wf_doc (tick st)"
proof -
  define s0 where "s0 = st\<lparr>now := Suc (now st),
                          timers := filter (\<lambda>x. \<not> is_due (Suc (now st)) x) (timers st)\<rparr>"
  define due where "due = map snd (sort_key fst (filter (is_due (Suc (now st))) (timers st)))"
  have t: "tick st = fold exec due s0"
    by (simp add: tick_unfold s0_def due_def)
  have "fresh s0"
    by (auto simp add: fresh_def s0_def is_due_def)
  then have 1: "fresh (tick st)"
    by (simp add: t fresh_fold_exec)
  have "\<forall>a \<in> set due. node_of a < next_node s0"
    using assms by (auto simp add: due_def s0_def wf_doc_alt)
  moreover have "\<forall>x \<in> set (timers s0). node_of (snd x) < next_node s0"
    using assms by (auto simp add: s0_def wf_doc_alt)
  ultimately have 2: "\<forall>x \<in> set (timers (tick st)). node_of (snd x) < next_node (tick st)"
    using bound_fold_exec [of due s0] by (simp add: t)
  have 3: "\<forall>a \<in> set (frames (tick st)). node_of a < next_node (tick st)"
    using assms by (simp add: t wf_doc_alt) (simp add: s0_def)
  from 1 2 3 show ?thesis by (simp add: wf_doc_alt)
qed

lemma wf_doc_frame: assumes "wf_doc st" shows "wf_doc (frame st)"
proof -
  define s0 where "s0 = st\<lparr>frames := []\<rparr>"
  have "fresh s0"
    using assms by (simp add: wf_doc_alt s0_def fresh_def)
  then have 1: "fresh (frame st)"
    by (simp add: frame_def s0_def fresh_fold_exec)
  have "\<forall>a \<in> set (frames st). node_of a < next_node s0"
    and "\<forall>x \<in> set (timers s0). node_of (snd x) < next_node s0"
    using assms by (simp_all add: wf_doc_alt s0_def)
  then have 2: "\<forall>x \<in> set (timers (frame st)). node_of (snd x) < next_node (frame st)"
    using bound_fold_exec [of "frames st" s0] by (simp add: frame_def s0_def)
  from 1 2 show ?thesis by (simp add: wf_doc_alt) (simp add: frame_def)
qed

lemma wf_doc_show:
  assumes "wf_doc st"
  shows "wf_doc (showNotification message type st)" and "wf_doc (showCopyNotification st)"
  using assms
  by (auto simp add: wf_doc_def showNotification_eq showCopyNotification_eq less_Suc_eq)

lemma wf_doc_elapse: "wf_doc st \<Longrightarrow> wf_doc (elapse d st)"
  by (induction d arbitrary: st) (simp_all add: wf_doc_tick)

lemma wf_doc_fallback:
  assumes "wf_doc st"
  shows "wf_doc (snd (fallbackCopyTextToClipboard text st))"
    and "wf_doc (snd (fallbackCopyText text st))"
  using assms
  by (cases "exec_copy st";
      auto simp add: wf_doc_def less_Suc_eq
        fallbackCopyTextToClipboard_def fallbackCopyText_def createElement_def update_node_def
        appendChild_def set_style_def select_def execCommand_def removeChild_def
        console_error_def showCopyNotification_eq)+

lemma wf_doc_env:
  "wf_doc (st\<lparr>calls := c\<rparr>) = wf_doc st"
  "wf_doc (st\<lparr>clipboard := b\<rparr>) = wf_doc st"
  "wf_doc (st\<lparr>uncaught := u\<rparr>) = wf_doc st"
  "wf_doc (st\<lparr>console := l\<rparr>) = wf_doc st"
  by (simp_all add: wf_doc_def)

lemma wf_doc_copyGiftLink:
  assumes "wf_doc st"
  shows "wf_doc (snd (copyGiftLink st))"
proof (cases "has_clipboard st")
  case False
  then show ?thesis
    using assms by (simp add: copyGiftLink_def wf_doc_fallback)
next
  case True
  define st1 where "st1 = st\<lparr>calls := calls st @ [WriteText giftUrl]\<rparr>"
  have 1: "wf_doc st1"
    using assms by (simp add: st1_def wf_doc_env)
  show ?thesis
  proof (cases "write_ok st")
    case True
    have "wf_doc (showCopyNotification (st1\<lparr>clipboard := Some giftUrl\<rparr>))"
      using 1 by (intro wf_doc_show) (simp add: wf_doc_env)
    then show ?thesis
      using \<open>has_clipboard st\<close> True by (simp add: copyGiftLink_def writeText_def st1_def)
  next
    case False
    have "wf_doc (snd (fallbackCopyTextToClipboard giftUrl st1))"
      using 1 by (rule wf_doc_fallback)
    then show ?thesis
      using \<open>has_clipboard st\<close> False
      by (cases "fallbackCopyTextToClipboard giftUrl st1")
         (simp add: copyGiftLink_def writeText_def st1_def wf_doc_env split: option.splits)
  qed
qed

lemma wf_doc_app_copyGiftLink:
  assumes "wf_doc st"
  shows "wf_doc (snd (app_copyGiftLink st))"
proof -
  define r where "r = (if has_clipboard st then
               (case writeText giftUrl st of
                  (True, s) \<Rightarrow> (None, s)
                | (False, s) \<Rightarrow> (Some (Error ''DOMException''), s))
             else fallbackCopyText giftUrl st)"
  have 1: "wf_doc (snd r)"
    using assms
    by (cases "has_clipboard st"; cases "write_ok st")
       (simp_all add: r_def writeText_def wf_doc_env wf_doc_fallback)
  have "snd (app_copyGiftLink st) =
          (case fst r of
             None \<Rightarrow> showNotification ''Gift link copied to clipboard!'' ''success'' (snd r)
           | Some err \<Rightarrow> showNotification ''Failed to copy link'' ''error''
                          (console_error ''Copy failed:'' (snd r)))"
    by (simp add: app_copyGiftLink_def r_def [symmetric] split_def split: option.splits)
  then show ?thesis
    using 1
    by (cases "fst r") (simp_all add: wf_doc_show console_error_def wf_doc_env)
qed

lemma wf_doc_step: "wf_doc st \<Longrightarrow> wf_doc (step e st)"
  by (cases e)
     (simp_all add: wf_doc_elapse wf_doc_frame wf_doc_show wf_doc_copyGiftLink
        wf_doc_app_copyGiftLink)

lemma wf_doc_run: "wf_doc st \<Longrightarrow> wf_doc (run es st)"
  unfolding run_def by (induction es arbitrary: st) (simp_all add: wf_doc_step)

lemma wf_doc_empty: "wf_doc empty_doc"
  by (simp add: wf_doc_def empty_doc_def)



text \<open>When the exit callback runs it starts the exit: the controller's moves the toast
  out to the right, that of \<^verbatim>\<open>script.js\<close> starts the slide-out animation.\<close>

lemma map_of_set_prop: "map_of (set_prop k v ps) k = Some v"
  by (induction ps) auto

lemma exit_callback_effect:
  "map_of (style (nodes (exec (App_exit n) st) n)) ''transform'' = Some ''translateX(100%)''"
  "map_of (style (nodes (exec (Script_exit n) st) n)) ''animation'' = Some ''slideOut 0.3s ease''"
  by (simp_all add: exec_def set_style_def setTimeout_def update_node_def map_of_set_prop)



section \<open>Properties of the guarded removal\<close>

text \<open>
  Claim C10, as amended. The controller's removal callback tests that the toast has a
  parent before it asks the body to remove it. When the toast is still under the body or
  has no parent at all, the callback does not throw, reports no error, and leaves the
  toast without a parent.
\<close>

theorem app_remove_guarded:
  assumes "parentNode (nodes st n) \<noteq> Some Elsewhere"
  shows "fst (run_action (App_remove n) st) = None
         \<and> uncaught (exec (App_remove n) st) = uncaught st
         \<and> parentNode (nodes (exec (App_remove n) st) n) = None"
proof (cases "parentNode (nodes st n)")
  case None
  then show ?thesis by (simp add: exec_def)
next
  case (Some c)
  with assms have "c = Body" by (cases c) auto
  with Some show ?thesis by (simp add: exec_def removeChild_def update_node_def)
qed

theorem app_remove_guarded_witness:
  "parentNode (nodes detached_toast_doc 0) \<noteq> Some Elsewhere
   \<and> parentNode (nodes detached_toast_doc 0) = None
   \<and> fst (run_action (App_remove 0) detached_toast_doc) = None
   \<and> uncaught (exec (App_remove 0) detached_toast_doc) = []"
proof -
  have d: "parentNode (nodes detached_toast_doc 0) \<noteq> Some Elsewhere"
    by (simp add: detached_toast_doc_def showNotification_eq update_node_def empty_doc_def)
  show ?thesis
    using app_remove_guarded [OF d] d
    by (simp add: detached_toast_doc_def showNotification_eq update_node_def empty_doc_def)
qed

text \<open>
  Claim C10, as stated: the removal callback never throws. A toast that has been moved
  under another node has a parent, so the test passes, and the body, whose child it is
  not, refuses the removal: the callback throws.
\<close>

theorem app_remove_moved_counterexample:
  "run_action (App_remove 0) moved_toast_doc = (Some NotFoundError, moved_toast_doc)"
  by (simp add: moved_toast_doc_def showNotification_eq update_node_def empty_doc_def
        removeChild_def)

text \<open>The removal callback of \<^verbatim>\<open>script.js\<close> has no test and throws on a detached toast.\<close>

lemma script_remove_detached:
  "parentNode (nodes st n) = None \<Longrightarrow> run_action (Script_remove n) st = (Some NotFoundError, st)"
  by (simp add: removeChild_def)

section \<open>Properties of copying the gift link\<close>

text \<open>
  Both fallbacks call \<^verbatim>\<open>execCommand\<close> and leave the temporary text field (the node they
  create) without a parent, whatever \<^verbatim>\<open>execCommand\<close> does. That of \<^verbatim>\<open>script.js\<close> never
  throws; the controller's throws exactly when \<^verbatim>\<open>execCommand\<close> does.
\<close>

lemma fallbackCopyTextToClipboard_removes:
  "fst (fallbackCopyTextToClipboard text st) = None
   \<and> parentNode (nodes (snd (fallbackCopyTextToClipboard text st)) (next_node st)) = None
   \<and> ExecCommand ''copy'' \<in> set (calls (snd (fallbackCopyTextToClipboard text st)))"
  by (cases "exec_copy st")
     (simp_all add: fallbackCopyTextToClipboard_def createElement_def update_node_def
        appendChild_def set_style_def select_def execCommand_def removeChild_def
        console_error_def showCopyNotification_eq)

lemma fallbackCopyText_removes:
  "parentNode (nodes (snd (fallbackCopyText text st)) (next_node st)) = None
   \<and> ExecCommand ''copy'' \<in> set (calls (snd (fallbackCopyText text st)))
   \<and> (fst (fallbackCopyText text st) \<noteq> None) = (exec_copy st = ExecThrows)"
  by (cases "exec_copy st")
     (simp_all add: fallbackCopyText_def createElement_def update_node_def
        appendChild_def select_def execCommand_def removeChild_def)

text \<open>No error leaves either \<^verbatim>\<open>copyGiftLink\<close>.\<close>

lemma copyGiftLink_no_throw: "fst (copyGiftLink st) = None" "fst (app_copyGiftLink st) = None"
proof -
  show "fst (copyGiftLink st) = None"
  proof (cases "has_clipboard st")
    case False
    then show ?thesis
      using fallbackCopyTextToClipboard_removes [of giftUrl st] by (simp add: copyGiftLink_def)
  next
    case True
    then show ?thesis
      by (cases "fallbackCopyTextToClipboard giftUrl (st\<lparr>calls := calls st @ [WriteText giftUrl]\<rparr>)";
          cases "write_ok st")
         (simp_all add: copyGiftLink_def writeText_def split: option.splits)
  qed
  show "fst (app_copyGiftLink st) = None"
    by (simp add: app_copyGiftLink_def split_def Let_def split: option.splits)
qed

text \<open>With the clipboard capability present, both variants call it before anything else.\<close>

lemma copyGiftLink_clipboard_first:
  assumes "has_clipboard st"
  shows "take (Suc (length (calls st))) (calls (snd (copyGiftLink st))) = calls st @ [WriteText giftUrl]"
    and "calls (snd (app_copyGiftLink st)) = calls st @ [WriteText giftUrl]"
proof -
  show "calls (snd (app_copyGiftLink st)) = calls st @ [WriteText giftUrl]"
    using assms
    by (cases "write_ok st")
       (simp_all add: app_copyGiftLink_def writeText_def showNotification_eq console_error_def)
  show "take (Suc (length (calls st))) (calls (snd (copyGiftLink st))) = calls st @ [WriteText giftUrl]"
  proof (cases "write_ok st")
    case True
    with assms show ?thesis
      by (simp add: copyGiftLink_def writeText_def showCopyNotification_eq)
  next
    case False
    with assms show ?thesis
      by (cases "exec_copy st")
         (simp_all add: copyGiftLink_def writeText_def fallbackCopyTextToClipboard_def
            createElement_def update_node_def appendChild_def set_style_def select_def
            execCommand_def removeChild_def console_error_def showCopyNotification_eq)
  qed
qed

text \<open>
  \<^verbatim>\<open>copyGiftLink\<close> of \<^verbatim>\<open>script.js\<close> runs the fallback when the capability is missing and
  when its write fails; the controller's runs it when the capability is missing.
\<close>

lemma copyGiftLink_falls_back:
  assumes "\<not> has_clipboard st \<or> \<not> write_ok st"
  shows "ExecCommand ''copy'' \<in> set (calls (snd (copyGiftLink st)))"
proof (cases "has_clipboard st")
  case False
  then show ?thesis
    using fallbackCopyTextToClipboard_removes [of giftUrl st] by (simp add: copyGiftLink_def)
next
  case True
  with assms have w: "\<not> write_ok st" by simp
  define st1 where "st1 = st\<lparr>calls := calls st @ [WriteText giftUrl]\<rparr>"
  have "ExecCommand ''copy'' \<in> set (calls (snd (fallbackCopyTextToClipboard giftUrl st1)))"
    using fallbackCopyTextToClipboard_removes [of giftUrl st1] by simp
  then show ?thesis
    using True w
    by (cases "fallbackCopyTextToClipboard giftUrl st1")
       (simp add: copyGiftLink_def writeText_def st1_def split: option.splits)
qed

lemma app_copyGiftLink_unavailable:
  assumes "\<not> has_clipboard st"
  shows "ExecCommand ''copy'' \<in> set (calls (snd (app_copyGiftLink st)))"
proof -
  have "ExecCommand ''copy'' \<in> set (calls (snd (fallbackCopyText giftUrl st)))"
    using fallbackCopyText_removes [of giftUrl st] by simp
  then show ?thesis
    using assms
    by (cases "fallbackCopyText giftUrl st")
       (simp add: app_copyGiftLink_def showNotification_eq console_error_def split: option.splits)
qed

text \<open>
  Claim C4. \<^verbatim>\<open>copyGiftLink\<close> tries the clipboard capability first and runs the fallback
  whenever the capability is missing or its write fails; the fallback removes its
  temporary field whatever happens; no error escapes. The controller's \<^verbatim>\<open>copyGiftLink\<close>
  does not run the fallback after a failed write: with the capability present and the
  write rejected, the only call made is the write; \<^verbatim>\<open>execCommand\<close> is never called, no
  text field is created (the one node created is the error toast), the failure is
  logged and the error toast shown. \<^verbatim>\<open>copyGiftLink\<close> of \<^verbatim>\<open>script.js\<close>, in the same
  state, goes on to the fallback.
\<close>

theorem app_copyGiftLink_write_fails:
  "has_clipboard empty_doc \<and> \<not> write_ok empty_doc
   \<and> calls (snd (app_copyGiftLink empty_doc)) = [WriteText giftUrl]
   \<and> console (snd (app_copyGiftLink empty_doc)) = [''Copy failed:'']
   \<and> next_node (snd (app_copyGiftLink empty_doc)) = 1
   \<and> textContent (nodes (snd (app_copyGiftLink empty_doc)) 0) = ''Failed to copy link''
   \<and> calls (snd (copyGiftLink empty_doc)) = [WriteText giftUrl, ExecCommand ''copy'']"
  by (simp add: app_copyGiftLink_def copyGiftLink_def empty_doc_def writeText_def
        console_error_def showNotification_eq showCopyNotification_eq
        fallbackCopyTextToClipboard_def createElement_def update_node_def appendChild_def
        set_style_def select_def execCommand_def removeChild_def blank_node_def)

section \<open>Properties of the throttle\<close>

lemma thr_elapse_before_due:
  "thr_timers t = [due] \<Longrightarrow> thr_now t + d < due \<Longrightarrow> thr_elapse d t = t\<lparr>thr_now := thr_now t + d\<rparr>"
proof (induction d arbitrary: t)
  case 0
  then show ?case by simp
next
  case (Suc d)
  have tick: "thr_tick t = t\<lparr>thr_now := Suc (thr_now t)\<rparr>"
    using Suc.prems by (simp add: thr_tick_def Let_def)
  show ?case
    using Suc.IH [of "thr_tick t"] Suc.prems by (simp add: tick)
qed

lemma inner_thr_tick: "inner (thr_tick t) = inner t"
  by (simp add: thr_tick_def Let_def)

lemma inner_thr_elapse: "inner (thr_elapse k t) = inner t"
  by (induction k arbitrary: t) (simp_all add: inner_thr_tick)

text \<open>Calls and ticks keep the flag and the pending callback in step.\<close>

lemma thr_wf_tick: "thr_wf t \<Longrightarrow> thr_wf (thr_tick t)"
  by (cases "inThrottle t")
     (auto simp add: thr_wf_def thr_tick_def Let_def split: if_splits list.splits)

lemma thr_wf_throttle: "thr_wf t \<Longrightarrow> thr_wf (snd (throttle func limit t))"
  by (cases "func (inner t)")
     (auto simp add: thr_wf_def throttle_def split: option.splits list.splits)

lemma thr_wf_idle: "thr_wf idle_throttle"
  by (simp add: thr_wf_def idle_throttle_def)

text \<open>When the window has run its length the flag is clear again.\<close>

lemma thr_elapse_reopens:
  assumes "thr_timers t = [thr_now t + limit]" and "0 < limit"
  shows "\<not> inThrottle (thr_elapse limit t)"
proof -
  obtain k where k: "limit = Suc k"
    using assms(2) by (cases limit) auto
  have "thr_elapse k t = t\<lparr>thr_now := thr_now t + k\<rparr>"
    by (rule thr_elapse_before_due [where due = "thr_now t + limit"]) (use assms k in simp_all)
  moreover have "thr_elapse (Suc k) t = thr_tick (thr_elapse k t)"
    by (induction k arbitrary: t) simp_all
  ultimately show ?thesis
    using assms by (simp add: k thr_tick_def Let_def)
qed

text \<open>
  Claim C9, as amended. A call that arrives while no window is open runs the wrapped
  function at once, and what the function throws goes to the caller. If that run
  returned, every call arriving less than \<open>limit\<close> milliseconds after it changes
  nothing: the function is not run and nothing is scheduled; and the function's state
  stays as the run left it however much time passes afterwards, so the call is not
  deferred either.
\<close>

theorem throttle_leading_edge:
  assumes wf: "thr_wf t" and idle: "\<not> inThrottle t"
  shows "fst (throttle func limit t) = fst (func (inner t))
         \<and> inner (snd (throttle func limit t)) = snd (func (inner t))
         \<and> (fst (func (inner t)) = None \<longrightarrow>
              (\<forall>d < limit. \<forall>k.
                 throttle func limit (thr_elapse d (snd (throttle func limit t)))
                   = (None, thr_elapse d (snd (throttle func limit t)))
                 \<and> inner (thr_elapse k (thr_elapse d (snd (throttle func limit t))))
                     = snd (func (inner t))))"
proof (intro conjI impI allI)
  show "fst (throttle func limit t) = fst (func (inner t))"
    using idle by (simp add: throttle_def split: prod.splits option.splits)
  show run: "inner (snd (throttle func limit t)) = snd (func (inner t))"
    using idle by (simp add: throttle_def split: prod.splits option.splits)
  fix d k
  assume ok: "fst (func (inner t)) = None" and d: "d < limit"
  define t1 where "t1 = snd (throttle func limit t)"
  have t1: "t1 = t\<lparr>inner := snd (func (inner t)), inThrottle := True,
                   thr_timers := [thr_now t + limit]\<rparr>"
    using idle ok wf by (cases "func (inner t)") (simp add: t1_def throttle_def thr_wf_def)
  have "thr_elapse d t1 = t1\<lparr>thr_now := thr_now t1 + d\<rparr>"
    by (rule thr_elapse_before_due [where due = "thr_now t + limit"]) (use d in \<open>simp_all add: t1\<close>)
  then have busy: "inThrottle (thr_elapse d t1)"
    by (simp add: t1)
  show "throttle func limit (thr_elapse d (snd (throttle func limit t)))
          = (None, thr_elapse d (snd (throttle func limit t)))"
    using busy by (simp add: throttle_def t1_def)
  show "inner (thr_elapse k (thr_elapse d (snd (throttle func limit t)))) = snd (func (inner t))"
    by (simp add: inner_thr_elapse run)
qed

theorem throttle_leading_edge_witness:
  "thr_wf idle_throttle \<and> \<not> inThrottle idle_throttle
   \<and> fst (count_calls (inner idle_throttle)) = None \<and> (5::nat) < 16
   \<and> inner (snd (throttle count_calls 16 idle_throttle)) = 1
   \<and> throttle count_calls 16 (thr_elapse 5 (snd (throttle count_calls 16 idle_throttle)))
       = (None, thr_elapse 5 (snd (throttle count_calls 16 idle_throttle)))
   \<and> inner (thr_elapse 11 (thr_elapse 5 (snd (throttle count_calls 16 idle_throttle)))) = 1"
proof -
  have wf: "thr_wf idle_throttle" and idle: "\<not> inThrottle idle_throttle"
    by (simp_all add: thr_wf_def idle_throttle_def)
  have ok: "fst (count_calls (inner idle_throttle)) = None"
    by (simp add: count_calls_def)
  show ?thesis
    using throttle_leading_edge [OF wf idle, of count_calls 16] wf idle ok
    by (simp add: count_calls_def idle_throttle_def)
qed

text \<open>
  Claim C9, as stated, for every wrapped function: a call within the limit interval
  after an execution is discarded. A function that throws leaves the flag clear, for
  the assignment after its call is not reached: called at time 0 and again 5 ms later
  with a limit of 16 ms, it has run twice.
\<close>

theorem throttle_throwing_counterexample:
  "inner (snd (throttle count_and_throw 16
                 (thr_elapse 5 (snd (throttle count_and_throw 16 idle_throttle))))) = 2"
  by (simp add: throttle_def count_and_throw_def thr_tick_def Let_def idle_throttle_def
        eval_nat_numeral)

end
